theory Spec2Isabelle
  imports Main "HOL-Library.Word"
begin

section \<open>Data model of war.c\<close>

text \<open>
  The constants of lines 26-28. \<open>TAM_NOME\<close> and \<open>TAM_COR\<close> are the sizes of the two
  character buffers of a territory, terminating NUL included.
\<close>

definition TOTAL_TERRITORIOS :: nat where
  "TOTAL_TERRITORIOS = 5"

definition TAM_NOME :: nat where
  "TAM_NOME = 50"

definition TAM_COR :: nat where
  "TAM_COR = 20"

text \<open>
  A C \<open>int\<close> is a 32-bit two's complement value: \<open>+\<close> and \<open>-\<close> are taken modulo
  \<open>2 ^ 32\<close> and \<open>sint\<close> reads the signed value, which is what the comparisons of the
  source compare.
\<close>

type_synonym c_int = "32 word"

text \<open>
  \<open>struct Territorio\<close> (lines 33-37). A \<open>string\<close> field holds the content of the
  character buffer up to its terminating NUL, so \<open>strcmp(a, b) == 0\<close> is \<open>a = b\<close>.
\<close>

record Territorio =
  nome :: string
  corExercito :: string
  tropas :: c_int

text \<open>
  What a territory of the C type can hold: each text fits its buffer with the NUL.
\<close>

definition territorio_valido :: "Territorio \<Rightarrow> bool" where
  "territorio_valido t \<longleftrightarrow> length (nome t) < TAM_NOME \<and> length (corExercito t) < TAM_COR"

text \<open>
  \<open>strncpy(dst, src, n); dst[n] = '\0';\<close> as the source always writes it (lines 167-170,
  293-294, 338-339): the destination then holds the first \<open>n\<close> characters of the source
  text, all of it when it is shorter.
\<close>

definition strncpy_nul :: "string \<Rightarrow> nat \<Rightarrow> string" where
  "strncpy_nul src n = take n src"

section \<open>Combat: simularAtaque\<close>

text \<open>
  The lines the function prints, one constructor per \<open>printf\<close> of lines 268-311, with
  the values each one formats.
\<close>

datatype mensagem =
    MsgAtacanteSemTropas string
  | MsgDefensorVazio string
  | MsgAtaca string c_int string string c_int string
  | MsgRolagem int int
  | MsgPerdeTropa string c_int
  | MsgConquistado string string
  | MsgTropaMovida string string
  | MsgDefesaBemSucedida
  | MsgLinhaEmBranco

text \<open>
  The function returns nothing: its effects are the writes through its two pointers, the
  text printed and the calls to \<open>rand()\<close>. The result of the model holds all three:
  both territories after the call, the lines printed, and the number of values taken from
  the random source so far.
\<close>

record ataque =
  atacante_apos :: Territorio
  defensor_apos :: Territorio
  saida :: "mensagem list"
  sorteios :: nat

text \<open>\<open>rand() % 6 + 1\<close> (lines 277-278); \<open>rand()\<close> is never negative.\<close>

definition dado :: "nat \<Rightarrow> int" where
  "dado r = int (r mod 6) + 1"

text \<open>
  \<open>simularAtaque\<close> (lines 266-312). \<open>rnd\<close> is the sequence of values \<open>rand()\<close> returns
  and \<open>k\<close> the number of values already taken from it. The two pointers are distinct
  territories of the map: the only caller, \<open>faseDeAtaque\<close>, rejects \<open>atk == def\<close>
  (line 252).
\<close>

definition simularAtaque ::
  "(nat \<Rightarrow> nat) \<Rightarrow> nat \<Rightarrow> Territorio \<Rightarrow> Territorio \<Rightarrow> string \<Rightarrow> ataque" where
  "simularAtaque rnd k atacante defensor corJogador =
    (if sint (tropas atacante) \<le> 0 then
       \<lparr>atacante_apos = atacante, defensor_apos = defensor,
        saida = [MsgAtacanteSemTropas (nome atacante)], sorteios = k\<rparr>
     else if sint (tropas defensor) \<le> 0 then
       \<lparr>atacante_apos = atacante, defensor_apos = defensor,
        saida = [MsgDefensorVazio (nome defensor)], sorteios = k\<rparr>
     else
       let dadoAtaque = dado (rnd k);
           dadoDefesa = dado (rnd (k + 1));
           rolagem =
             [MsgAtaca (nome atacante) (tropas atacante) (corExercito atacante)
                       (nome defensor) (tropas defensor) (corExercito defensor),
              MsgRolagem dadoAtaque dadoDefesa]
       in
         if dadoAtaque \<ge> dadoDefesa then
           let defensor1 = defensor\<lparr>tropas := tropas defensor - 1\<rparr>;
               perda = [MsgPerdeTropa (nome defensor1) (tropas defensor1)]
           in
             if sint (tropas defensor1) \<le> 0 then
               let conquista = [MsgConquistado (nome defensor1) (corExercito atacante)];
                   defensor2 = defensor1\<lparr>corExercito :=
                                 strncpy_nul (corExercito atacante) (TAM_COR - 1)\<rparr>
               in
                 if sint (tropas atacante) > 1 then
                   \<lparr>atacante_apos = atacante\<lparr>tropas := tropas atacante - 1\<rparr>,
                    defensor_apos = defensor2\<lparr>tropas := 1\<rparr>,
                    saida = rolagem @ perda @ conquista @
                      [MsgTropaMovida (nome atacante) (nome defensor2), MsgLinhaEmBranco],
                    sorteios = k + 2\<rparr>
                 else
                   \<lparr>atacante_apos = atacante\<lparr>tropas := 0\<rparr>,
                    defensor_apos = defensor2\<lparr>tropas := 1\<rparr>,
                    saida = rolagem @ perda @ conquista @ [MsgLinhaEmBranco],
                    sorteios = k + 2\<rparr>
             else
               \<lparr>atacante_apos = atacante, defensor_apos = defensor1,
                saida = rolagem @ perda @ [MsgLinhaEmBranco], sorteios = k + 2\<rparr>
         else
           \<lparr>atacante_apos = atacante, defensor_apos = defensor,
            saida = rolagem @ [MsgDefesaBemSucedida, MsgLinhaEmBranco],
            sorteios = k + 2\<rparr>)"

section \<open>Missions: verificarVitoria\<close>

text \<open>
  The loop of lines 356-360 over \<open>territorios[0 .. total - 1]\<close>, the list being the
  array with its \<open>total\<close> entries: it returns 0 at the first territory of the target
  army that still has troops, and 1 when there is none.
\<close>

fun destruir_laco :: "Territorio list \<Rightarrow> string \<Rightarrow> int" where
  "destruir_laco [] alvoMissao = 1"
| "destruir_laco (t # ts) alvoMissao =
     (if corExercito t = alvoMissao \<and> sint (tropas t) > 0 then 0
      else destruir_laco ts alvoMissao)"

text \<open>
  The loop of lines 365-367: \<open>contador\<close> is a C \<open>int\<close>, incremented once for each
  territory of the player's colour.
\<close>

fun contar_laco :: "Territorio list \<Rightarrow> string \<Rightarrow> c_int \<Rightarrow> c_int" where
  "contar_laco [] corJogador contador = contador"
| "contar_laco (t # ts) corJogador contador =
     contar_laco ts corJogador
       (if corExercito t = corJogador then contador + 1 else contador)"

text \<open>
  \<open>verificarVitoria\<close> (lines 353-371). Its map parameter is a pointer to \<open>const\<close> and
  no line writes through it, so the model returns the \<open>int\<close> alone: the map after the
  call is the map that was passed.
\<close>

definition verificarVitoria ::
  "Territorio list \<Rightarrow> int \<Rightarrow> string \<Rightarrow> string \<Rightarrow> int" where
  "verificarVitoria territorios idMissao alvoMissao corJogador =
     (if idMissao = 0 then destruir_laco territorios alvoMissao
      else if idMissao = 1 then
        (if sint (contar_laco territorios corJogador 0) \<ge> 3 then 1 else 0)
      else 0)"

text \<open>
  What \<open>main\<close> keeps between two rounds of its loop: the map, the mission drawn at the
  start, the player's colour and the flag \<open>venceu\<close>.
\<close>

record jogo =
  j_mapa :: "Territorio list"
  j_idMissao :: int
  j_alvoMissao :: string
  j_corJogador :: string
  j_venceu :: int

text \<open>
  Option 2 of the menu (lines 118-125): the mission is checked and \<open>venceu\<close> is set when
  it is fulfilled; the congratulation or the reminder printed is left out.
\<close>

definition main_opcao2 :: "jogo \<Rightarrow> jogo" where
  "main_opcao2 j =
     (if verificarVitoria (j_mapa j) (j_idMissao j) (j_alvoMissao j) (j_corJogador j) \<noteq> 0
      then j\<lparr>j_venceu := 1\<rparr>
      else j)"

section \<open>Setup of the map\<close>

text \<open>The three tables of lines 162-164, each of \<open>TOTAL_TERRITORIOS\<close> entries.\<close>

definition nomes :: "string list" where
  "nomes = [''Amazonas'', ''Cerrado'', ''Pantanal'', ''Caatinga'', ''Mata Atlantica'']"

definition cores :: "string list" where
  "cores = [''Verde'', ''Azul'', ''Vermelho'', ''Amarelo'', ''Roxo'']"

definition tropas_iniciais :: "c_int list" where
  "tropas_iniciais = [5, 4, 6, 3, 5]"

text \<open>The player's colour, line 80 of \<open>main\<close>.\<close>

definition corJogador_main :: string where
  "corJogador_main = ''Azul''"

text \<open>
  \<open>alocarMapa\<close> (lines 152-155): \<open>calloc\<close> gives either \<open>NULL\<close> or \<open>total\<close> zeroed
  territories. Whether the allocation succeeds is the environment's answer
  \<open>calloc_ok\<close>.
\<close>

definition alocarMapa :: "bool \<Rightarrow> nat \<Rightarrow> Territorio list option" where
  "alocarMapa calloc_ok total_n =
     (if calloc_ok
      then Some (replicate total_n \<lparr>nome = [], corExercito = [], tropas = 0\<rparr>)
      else None)"

text \<open>
  A C function either runs to its end or leaves the behaviour undefined, as a read or a
  write outside an array does.
\<close>

datatype 'a efeito = Definido 'a | Indefinido

text \<open>
  The loop of \<open>inicializarTerritorios\<close> (lines 166-172). The source compares \<open>i\<close> with
  \<open>total\<close> only; the tables have \<open>TOTAL_TERRITORIOS\<close> entries and the map has the
  entries it was allocated with, so an index outside either is undefined behaviour.
\<close>

function inicializar_laco ::
  "nat \<Rightarrow> nat \<Rightarrow> Territorio list \<Rightarrow> Territorio list efeito" where
  "inicializar_laco i total_n territorios =
     (if i < total_n then
        (if i < TOTAL_TERRITORIOS \<and> i < length territorios then
           inicializar_laco (i + 1) total_n
             (territorios[i := (territorios ! i)
                \<lparr>nome := strncpy_nul (nomes ! i) (TAM_NOME - 1),
                 corExercito := strncpy_nul (cores ! i) (TAM_COR - 1),
                 tropas := tropas_iniciais ! i\<rparr>])
         else Indefinido)
      else Definido territorios)"
  by pat_completeness auto
termination
  by (relation "measure (\<lambda>(i, total_n, territorios). total_n - i)") auto

declare inicializar_laco.simps [simp del]

definition inicializarTerritorios ::
  "Territorio list \<Rightarrow> nat \<Rightarrow> Territorio list efeito" where
  "inicializarTerritorios territorios total_n = inicializar_laco 0 total_n territorios"

text \<open>
  The setup of \<open>main\<close> (lines 83-88) with the number of territories as a parameter
  where \<open>main\<close> passes \<open>TOTAL_TERRITORIOS\<close>: allocate, leave with \<open>EXIT_FAILURE\<close> on
  \<open>NULL\<close>, otherwise fill the map.
\<close>

datatype inicio = FalhaAlocacao | MapaPronto "Territorio list" | AcessoForaDaTabela

definition main_mapa :: "bool \<Rightarrow> nat \<Rightarrow> inicio" where
  "main_mapa calloc_ok total_n =
     (case alocarMapa calloc_ok total_n of
        None \<Rightarrow> FalhaAlocacao
      | Some mapa \<Rightarrow>
          (case inicializarTerritorios mapa total_n of
             Definido mapa' \<Rightarrow> MapaPronto mapa'
           | Indefinido \<Rightarrow> AcessoForaDaTabela))"

section \<open>Reference values\<close>

text \<open>The triple at position \<open>i\<close> of the three tables.\<close>

definition semente :: "nat \<Rightarrow> Territorio" where
  "semente i = \<lparr>nome = nomes ! i, corExercito = cores ! i, tropas = tropas_iniciais ! i\<rparr>"

text \<open>The map of the reference configuration, as \<open>main\<close> builds it.\<close>

definition mapa_referencia :: "Territorio list" where
  "mapa_referencia =
     [\<lparr>nome = ''Amazonas'', corExercito = ''Verde'', tropas = 5\<rparr>,
      \<lparr>nome = ''Cerrado'', corExercito = ''Azul'', tropas = 4\<rparr>,
      \<lparr>nome = ''Pantanal'', corExercito = ''Vermelho'', tropas = 6\<rparr>,
      \<lparr>nome = ''Caatinga'', corExercito = ''Amarelo'', tropas = 3\<rparr>,
      \<lparr>nome = ''Mata Atlantica'', corExercito = ''Roxo'', tropas = 5\<rparr>]"

text \<open>Territories and random sequences for the concrete runs below.\<close>

definition t_amazonas :: Territorio where
  "t_amazonas = \<lparr>nome = ''Amazonas'', corExercito = ''Verde'', tropas = 5\<rparr>"

definition t_cerrado_1 :: Territorio where
  "t_cerrado_1 = \<lparr>nome = ''Cerrado'', corExercito = ''Azul'', tropas = 1\<rparr>"

definition t_pantanal_3 :: Territorio where
  "t_pantanal_3 = \<lparr>nome = ''Pantanal'', corExercito = ''Vermelho'', tropas = 3\<rparr>"

definition t_caatinga_1 :: Territorio where
  "t_caatinga_1 = \<lparr>nome = ''Caatinga'', corExercito = ''Amarelo'', tropas = 1\<rparr>"

definition t_caatinga_2 :: Territorio where
  "t_caatinga_2 = \<lparr>nome = ''Caatinga'', corExercito = ''Amarelo'', tropas = 2\<rparr>"

definition t_roxo_0 :: Territorio where
  "t_roxo_0 = \<lparr>nome = ''Mata Atlantica'', corExercito = ''Roxo'', tropas = 0\<rparr>"

text \<open>\<open>rand()\<close> returning 5 then 0 gives the dice 6 and 1; 1 then 4 gives 2 and 5.\<close>

definition rnd_6_1 :: "nat \<Rightarrow> nat" where
  "rnd_6_1 i = (if i = 0 then 5 else 0)"

definition rnd_2_5 :: "nat \<Rightarrow> nat" where
  "rnd_2_5 i = (if i = 0 then 1 else 4)"

text \<open>\<open>rand()\<close> returning 9 each time gives a tie, 4 against 4.\<close>

definition rnd_4_4 :: "nat \<Rightarrow> nat" where
  "rnd_4_4 i = 9"

text \<open>A map in which the player's colour holds three of the five territories.\<close>

definition mapa_tres_azuis :: "Territorio list" where
  "mapa_tres_azuis =
     [\<lparr>nome = ''Amazonas'', corExercito = ''Azul'', tropas = 1\<rparr>,
      \<lparr>nome = ''Cerrado'', corExercito = ''Azul'', tropas = 3\<rparr>,
      \<lparr>nome = ''Pantanal'', corExercito = ''Vermelho'', tropas = 6\<rparr>,
      \<lparr>nome = ''Caatinga'', corExercito = ''Azul'', tropas = 1\<rparr>,
      \<lparr>nome = ''Mata Atlantica'', corExercito = ''Roxo'', tropas = 0\<rparr>]"

section \<open>Arithmetic of the troop counters\<close>

text \<open>Taking one troop from a positive count never wraps around.\<close>

lemma sint_menos_um:
  assumes "0 < sint (x :: c_int)"
  shows "sint (x - 1) = sint x - 1"
proof -
  have up: "sint x < 2 ^ 31"
    using sint_lt [of x] by simp
  have "sint (x - 1) = signed_take_bit 31 (sint x - sint (1 :: c_int))"
    using sint_word_ariths(2) [of x 1] by simp
  also have "\<dots> = signed_take_bit 31 (sint x - 1)"
    by simp
  also have "\<dots> = sint x - 1"
    using assms up by (intro signed_take_bit_int_eq_self) simp_all
  finally show ?thesis .
qed

text \<open>A count below \<open>2 ^ 31\<close> is read back from the counter as it is.\<close>

lemma sint_of_nat_c_int:
  assumes "n < 2 ^ 31"
  shows "sint (of_nat n :: c_int) = int n"
proof -
  have "sint (of_nat n :: c_int) = signed_take_bit 31 (int n)"
    using signed_of_nat [where 'b = 32 and 'a = int, of n] by simp
  also have "\<dots> = int n"
    using assms by (intro signed_take_bit_int_eq_self) simp_all
  finally show ?thesis .
qed

text \<open>The dice are in 1..6, and each of the six faces comes up for some \<open>rand()\<close>.\<close>

lemma dado_intervalo: "1 \<le> dado r \<and> dado r \<le> 6"
  unfolding dado_def by simp

lemma dado_sobre: "1 \<le> d \<Longrightarrow> d \<le> 6 \<Longrightarrow> dado (nat (d - 1)) = d"
  unfolding dado_def by simp

lemma dado_rnd_6_1: "dado (rnd_6_1 0) = 6 \<and> dado (rnd_6_1 (Suc 0)) = 1"
  by (simp add: dado_def rnd_6_1_def)

lemma dado_rnd_2_5: "dado (rnd_2_5 0) = 2 \<and> dado (rnd_2_5 (Suc 0)) = 5"
  by (simp add: dado_def rnd_2_5_def)

lemma dado_rnd_4_4: "dado (rnd_4_4 0) = 4 \<and> dado (rnd_4_4 (Suc 0)) = 4"
  by (simp add: dado_def rnd_4_4_def)

section \<open>Properties of simularAtaque\<close>

lemmas simularAtaque_simps = simularAtaque_def Let_def

text \<open>The conquest branch is taken exactly when its line is printed.\<close>

lemma conquista_impressa_iff:
  "MsgConquistado (nome defensor) (corExercito atacante)
     \<in> set (saida (simularAtaque rnd k atacante defensor corJogador))
   \<longleftrightarrow> 0 < sint (tropas atacante) \<and> sint (tropas defensor) = 1
       \<and> dado (rnd (k + 1)) \<le> dado (rnd k)"
  by (auto simp add: simularAtaque_simps sint_menos_um)

text \<open>A territory that fits its buffers still fits them after an attack.\<close>

lemma simularAtaque_valido:
  assumes "territorio_valido atacante" and "territorio_valido defensor"
  shows "territorio_valido (atacante_apos (simularAtaque rnd k atacante defensor corJogador))
       \<and> territorio_valido (defensor_apos (simularAtaque rnd k atacante defensor corJogador))"
  using assms
  by (auto simp add: simularAtaque_simps territorio_valido_def strncpy_nul_def)

text \<open>
  C1. Attacker and defender both start with troops, the attacker's die is at least the
  defender's and the defender's count reaches 0 by the loss of line 287: the defender
  ends with the attacker's colour and exactly 1 troop, and the attacker with its old
  count less one, or 0 when that would be negative. The attacker is a territory of the C
  type, so its colour fits the buffer of \<open>TAM_COR\<close> characters.
\<close>

theorem simularAtaque_conquista:
  assumes "0 < sint (tropas atacante)" and "0 < sint (tropas defensor)"
    and "dado (rnd (k + 1)) \<le> dado (rnd k)"
    and "sint (tropas defensor - 1) = 0"
    and "territorio_valido atacante"
  shows "corExercito (defensor_apos (simularAtaque rnd k atacante defensor corJogador))
           = corExercito atacante
       \<and> sint (tropas (defensor_apos (simularAtaque rnd k atacante defensor corJogador))) = 1
       \<and> sint (tropas (atacante_apos (simularAtaque rnd k atacante defensor corJogador)))
           = max (sint (tropas atacante) - 1) 0"
  using assms
  by (auto simp add: simularAtaque_simps sint_menos_um territorio_valido_def strncpy_nul_def)

theorem simularAtaque_conquista_witness:
  "(corExercito (defensor_apos (simularAtaque rnd_6_1 0 t_amazonas t_caatinga_1 ''Azul''))
      = ''Verde''
    \<and> sint (tropas (defensor_apos (simularAtaque rnd_6_1 0 t_amazonas t_caatinga_1 ''Azul''))) = 1
    \<and> sint (tropas (atacante_apos (simularAtaque rnd_6_1 0 t_amazonas t_caatinga_1 ''Azul''))) = 4)
   \<and> (corExercito (defensor_apos (simularAtaque rnd_6_1 0 t_cerrado_1 t_caatinga_1 ''Azul''))
      = ''Azul''
    \<and> sint (tropas (defensor_apos (simularAtaque rnd_6_1 0 t_cerrado_1 t_caatinga_1 ''Azul''))) = 1
    \<and> sint (tropas (atacante_apos (simularAtaque rnd_6_1 0 t_cerrado_1 t_caatinga_1 ''Azul''))) = 0)"
  using simularAtaque_conquista [of t_amazonas t_caatinga_1 rnd_6_1 0 "''Azul''"]
    simularAtaque_conquista [of t_cerrado_1 t_caatinga_1 rnd_6_1 0 "''Azul''"]
    dado_rnd_6_1
  by (simp add: t_amazonas_def t_cerrado_1_def t_caatinga_1_def territorio_valido_def
      TAM_NOME_def TAM_COR_def)

text \<open>
  C2. Attacker and defender both start with troops. When the attacker's die is at least
  the defender's (a tie included), the third line printed reports the defender with its
  old count less exactly one, which is the count before the conquest test of line 289,
  and when that count is still positive the call ends with it and with the attacker
  untouched. When the defender's die is the greater one, both territories are returned
  as they were.
\<close>

theorem simularAtaque_rolagem:
  assumes "0 < sint (tropas atacante)" and "0 < sint (tropas defensor)"
  shows "(dado (rnd (k + 1)) \<le> dado (rnd k) \<longrightarrow>
            saida (simularAtaque rnd k atacante defensor corJogador) ! 2
              = MsgPerdeTropa (nome defensor) (tropas defensor - 1)
          \<and> sint (tropas defensor - 1) = sint (tropas defensor) - 1
          \<and> (0 < sint (tropas defensor - 1) \<longrightarrow>
                 defensor_apos (simularAtaque rnd k atacante defensor corJogador)
                   = defensor\<lparr>tropas := tropas defensor - 1\<rparr>
               \<and> atacante_apos (simularAtaque rnd k atacante defensor corJogador) = atacante))
       \<and> (dado (rnd k) < dado (rnd (k + 1)) \<longrightarrow>
            atacante_apos (simularAtaque rnd k atacante defensor corJogador) = atacante
          \<and> defensor_apos (simularAtaque rnd k atacante defensor corJogador) = defensor)"
  using assms
  by (auto simp add: simularAtaque_simps sint_menos_um)

theorem simularAtaque_rolagem_witness:
  "(saida (simularAtaque rnd_6_1 0 t_pantanal_3 t_caatinga_2 ''Azul'') ! 2
      = MsgPerdeTropa ''Caatinga'' 1
    \<and> defensor_apos (simularAtaque rnd_6_1 0 t_pantanal_3 t_caatinga_2 ''Azul'')
      = \<lparr>nome = ''Caatinga'', corExercito = ''Amarelo'', tropas = 1\<rparr>
    \<and> atacante_apos (simularAtaque rnd_6_1 0 t_pantanal_3 t_caatinga_2 ''Azul'') = t_pantanal_3)
   \<and> (saida (simularAtaque rnd_4_4 0 t_pantanal_3 t_caatinga_2 ''Azul'') ! 2
      = MsgPerdeTropa ''Caatinga'' 1
    \<and> defensor_apos (simularAtaque rnd_4_4 0 t_pantanal_3 t_caatinga_2 ''Azul'')
      = \<lparr>nome = ''Caatinga'', corExercito = ''Amarelo'', tropas = 1\<rparr>)
   \<and> (atacante_apos (simularAtaque rnd_2_5 0 t_pantanal_3 t_caatinga_2 ''Azul'') = t_pantanal_3
    \<and> defensor_apos (simularAtaque rnd_2_5 0 t_pantanal_3 t_caatinga_2 ''Azul'') = t_caatinga_2)"
  using simularAtaque_rolagem [of t_pantanal_3 t_caatinga_2 rnd_6_1 0 "''Azul''"]
    simularAtaque_rolagem [of t_pantanal_3 t_caatinga_2 rnd_4_4 0 "''Azul''"]
    simularAtaque_rolagem [of t_pantanal_3 t_caatinga_2 rnd_2_5 0 "''Azul''"]
    dado_rnd_6_1 dado_rnd_4_4 dado_rnd_2_5
  by (simp add: t_pantanal_3_def t_caatinga_2_def)

text \<open>
  C3. An attacker without troops ends the call at line 269 and, the attacker having
  troops, a defender without troops ends it at line 273: only the line naming the empty
  territory is printed, no value is taken from \<open>rand()\<close>, and both territories are
  returned with every field as it was.
\<close>

theorem simularAtaque_sem_tropas:
  "(sint (tropas atacante) \<le> 0 \<longrightarrow>
      simularAtaque rnd k atacante defensor corJogador =
        \<lparr>atacante_apos = atacante, defensor_apos = defensor,
         saida = [MsgAtacanteSemTropas (nome atacante)], sorteios = k\<rparr>)
   \<and> (0 < sint (tropas atacante) \<and> sint (tropas defensor) \<le> 0 \<longrightarrow>
      simularAtaque rnd k atacante defensor corJogador =
        \<lparr>atacante_apos = atacante, defensor_apos = defensor,
         saida = [MsgDefensorVazio (nome defensor)], sorteios = k\<rparr>)"
  by (simp add: simularAtaque_def)

theorem simularAtaque_sem_tropas_witness:
  "simularAtaque rnd_6_1 0 t_roxo_0 t_amazonas ''Azul'' =
     \<lparr>atacante_apos = t_roxo_0, defensor_apos = t_amazonas,
      saida = [MsgAtacanteSemTropas ''Mata Atlantica''], sorteios = 0\<rparr>
   \<and> simularAtaque rnd_6_1 0 t_amazonas t_roxo_0 ''Azul'' =
     \<lparr>atacante_apos = t_amazonas, defensor_apos = t_roxo_0,
      saida = [MsgDefensorVazio ''Mata Atlantica''], sorteios = 0\<rparr>"
  using simularAtaque_sem_tropas [of t_roxo_0 rnd_6_1 0 t_amazonas "''Azul''"]
    simularAtaque_sem_tropas [of t_amazonas rnd_6_1 0 t_roxo_0 "''Azul''"]
  by (simp add: t_roxo_0_def t_amazonas_def)

text \<open>
  C4. When neither troop count is negative before the call, neither is negative after
  it, whatever the dice show and whichever branch the call takes.
\<close>

theorem simularAtaque_tropas_nao_negativas:
  assumes "0 \<le> sint (tropas atacante)" and "0 \<le> sint (tropas defensor)"
  shows "0 \<le> sint (tropas (atacante_apos (simularAtaque rnd k atacante defensor corJogador)))
       \<and> 0 \<le> sint (tropas (defensor_apos (simularAtaque rnd k atacante defensor corJogador)))"
  using assms
  by (auto simp add: simularAtaque_simps sint_menos_um)

theorem simularAtaque_tropas_nao_negativas_witness:
  "0 \<le> sint (tropas (atacante_apos (simularAtaque rnd_6_1 0 t_cerrado_1 t_caatinga_1 ''Azul'')))
   \<and> 0 \<le> sint (tropas (defensor_apos (simularAtaque rnd_6_1 0 t_cerrado_1 t_caatinga_1 ''Azul'')))"
  using simularAtaque_tropas_nao_negativas [of t_cerrado_1 t_caatinga_1 rnd_6_1 0 "''Azul''"]
  by (simp add: t_cerrado_1_def t_caatinga_1_def)

text \<open>
  C9. Attacker and defender both start with troops. The two troop counts together are
  one less after the call when the attacker's die is at least the defender's, with or
  without a conquest, and the same as before when the defender's die is the greater one.
\<close>

theorem simularAtaque_soma_tropas:
  assumes "0 < sint (tropas atacante)" and "0 < sint (tropas defensor)"
  shows "sint (tropas (atacante_apos (simularAtaque rnd k atacante defensor corJogador)))
       + sint (tropas (defensor_apos (simularAtaque rnd k atacante defensor corJogador)))
       = (if dado (rnd (k + 1)) \<le> dado (rnd k)
          then sint (tropas atacante) + sint (tropas defensor) - 1
          else sint (tropas atacante) + sint (tropas defensor))"
  using assms
  by (auto simp add: simularAtaque_simps sint_menos_um)

theorem simularAtaque_soma_tropas_witness:
  "sint (tropas (atacante_apos (simularAtaque rnd_6_1 0 t_amazonas t_caatinga_1 ''Azul'')))
     + sint (tropas (defensor_apos (simularAtaque rnd_6_1 0 t_amazonas t_caatinga_1 ''Azul'')))
     = 5
   \<and> sint (tropas (atacante_apos (simularAtaque rnd_6_1 0 t_pantanal_3 t_caatinga_2 ''Azul'')))
     + sint (tropas (defensor_apos (simularAtaque rnd_6_1 0 t_pantanal_3 t_caatinga_2 ''Azul'')))
     = 4
   \<and> sint (tropas (atacante_apos (simularAtaque rnd_2_5 0 t_pantanal_3 t_caatinga_2 ''Azul'')))
     + sint (tropas (defensor_apos (simularAtaque rnd_2_5 0 t_pantanal_3 t_caatinga_2 ''Azul'')))
     = 5"
  using simularAtaque_soma_tropas [of t_amazonas t_caatinga_1 rnd_6_1 0 "''Azul''"]
    simularAtaque_soma_tropas [of t_pantanal_3 t_caatinga_2 rnd_6_1 0 "''Azul''"]
    simularAtaque_soma_tropas [of t_pantanal_3 t_caatinga_2 rnd_2_5 0 "''Azul''"]
    dado_rnd_6_1 dado_rnd_2_5
  by (simp add: t_amazonas_def t_caatinga_1_def t_pantanal_3_def t_caatinga_2_def)

text \<open>
  C10. The player's colour passed to the call is never read: two calls that differ in
  it alone return the same territories, print the same lines and take the same values
  from \<open>rand()\<close>.
\<close>

theorem simularAtaque_independe_corJogador:
  "simularAtaque rnd k atacante defensor corJogador1
     = simularAtaque rnd k atacante defensor corJogador2"
  by (simp add: simularAtaque_def)

section \<open>Properties of verificarVitoria\<close>

lemma destruir_laco_eq:
  "destruir_laco ts alvo =
     (if \<exists>t \<in> set ts. corExercito t = alvo \<and> 0 < sint (tropas t) then 0 else 1)"
  by (induction ts) auto

lemma contar_laco_eq:
  "contar_laco ts cor c = c + of_nat (length (filter (\<lambda>t. corExercito t = cor) ts))"
  by (induction ts arbitrary: c) auto

text \<open>
  C5. For the mission of identifier 0 (destroy the army of \<open>alvoMissao\<close>) the function
  returns 1 when no territory of the map has the target colour together with a positive
  troop count, and 0 when some territory has. The check made from the menu leaves the
  map of the game as it was.
\<close>

theorem verificarVitoria_destruir:
  "verificarVitoria territorios 0 alvoMissao corJogador =
     (if \<exists>t \<in> set territorios. corExercito t = alvoMissao \<and> 0 < sint (tropas t)
      then 0 else 1)
   \<and> j_mapa (main_opcao2 j) = j_mapa j"
  by (simp add: verificarVitoria_def destruir_laco_eq main_opcao2_def)

theorem verificarVitoria_destruir_witness:
  "verificarVitoria mapa_referencia 0 ''Verde'' ''Azul'' = 0
   \<and> verificarVitoria mapa_tres_azuis 0 ''Roxo'' ''Azul'' = 1
   \<and> j_mapa (main_opcao2 \<lparr>j_mapa = mapa_tres_azuis, j_idMissao = 0, j_alvoMissao = ''Roxo'',
        j_corJogador = ''Azul'', j_venceu = 0\<rparr>) = mapa_tres_azuis"
  using verificarVitoria_destruir [of mapa_referencia "''Verde''" "''Azul''"]
    verificarVitoria_destruir [of mapa_tres_azuis "''Roxo''" "''Azul''"
      "\<lparr>j_mapa = mapa_tres_azuis, j_idMissao = 0, j_alvoMissao = ''Roxo'',
        j_corJogador = ''Azul'', j_venceu = 0\<rparr>"]
  by (simp add: mapa_referencia_def mapa_tres_azuis_def)

text \<open>
  C6. For the mission of identifier 1 the function returns 1 when at least 3 territories
  of the map have the player's colour and 0 otherwise, the 3 being the same for a map of
  any length. The map is one whose territories of that colour the \<open>int\<close> counter can
  count, fewer than \<open>2 ^ 31\<close>: beyond that the increment of line 366 overflows, which C
  leaves undefined.
\<close>

theorem verificarVitoria_conquistar:
  assumes "length (filter (\<lambda>t. corExercito t = corJogador) territorios) < 2 ^ 31"
  shows "verificarVitoria territorios 1 alvoMissao corJogador =
     (if 3 \<le> length (filter (\<lambda>t. corExercito t = corJogador) territorios) then 1 else 0)"
  using assms
  by (simp add: verificarVitoria_def contar_laco_eq sint_of_nat_c_int)

theorem verificarVitoria_conquistar_witness:
  "verificarVitoria mapa_tres_azuis 1 ''3Territorios'' ''Azul'' = 1
   \<and> verificarVitoria mapa_referencia 1 ''3Territorios'' ''Azul'' = 0"
  using verificarVitoria_conquistar [of "''Azul''" mapa_tres_azuis "''3Territorios''"]
    verificarVitoria_conquistar [of "''Azul''" mapa_referencia "''3Territorios''"]
  by (simp add: mapa_tres_azuis_def mapa_referencia_def)

section \<open>Properties of the setup\<close>

text \<open>Every text of the two tables fits its buffer, so the copy keeps all of it.\<close>

lemma semente_copia:
  assumes "i < TOTAL_TERRITORIOS"
  shows "t\<lparr>nome := strncpy_nul (nomes ! i) (TAM_NOME - 1),
           corExercito := strncpy_nul (cores ! i) (TAM_COR - 1),
           tropas := tropas_iniciais ! i\<rparr> = semente i"
proof -
  have "i = 0 \<or> i = 1 \<or> i = 2 \<or> i = 3 \<or> i = 4"
    using assms by (auto simp add: TOTAL_TERRITORIOS_def)
  then show ?thesis
    by (auto simp add: semente_def strncpy_nul_def nomes_def cores_def TAM_NOME_def
        TAM_COR_def)
qed

text \<open>
  Within the tables the loop fills the positions from \<open>i\<close> on with the triples of the
  tables and keeps the positions before \<open>i\<close>.
\<close>

lemma inicializar_laco_sementes:
  assumes "i \<le> total_n" and "total_n \<le> TOTAL_TERRITORIOS" and "length ts = total_n"
  shows "inicializar_laco i total_n ts = Definido (take i ts @ map semente [i..<total_n])"
  using assms
proof (induction i total_n ts rule: inicializar_laco.induct)
  case (1 i total_n territorios)
  show ?case
  proof (cases "i < total_n")
    case False
    with "1.prems" show ?thesis
      by (subst inicializar_laco.simps) simp
  next
    case True
    let ?t = "(territorios ! i)
                \<lparr>nome := strncpy_nul (nomes ! i) (TAM_NOME - 1),
                 corExercito := strncpy_nul (cores ! i) (TAM_COR - 1),
                 tropas := tropas_iniciais ! i\<rparr>"
    have dentro: "i < TOTAL_TERRITORIOS" "i < length territorios"
      using True "1.prems" by simp_all
    have t: "?t = semente i"
      using dentro(1) by (rule semente_copia)
    have "inicializar_laco i total_n territorios
            = inicializar_laco (i + 1) total_n (territorios[i := ?t])"
      using True dentro by (subst inicializar_laco.simps) simp
    also have "\<dots> = Definido (take (i + 1) (territorios[i := ?t])
                          @ map semente [i + 1..<total_n])"
      using True dentro "1.prems" by (intro "1.IH") simp_all
    also have "take (i + 1) (territorios[i := ?t]) = take i territorios @ [semente i]"
      using dentro(2) t by (simp add: take_Suc_conv_app_nth)
    also have "(take i territorios @ [semente i]) @ map semente [i + 1..<total_n]
                 = take i territorios @ map semente [i..<total_n]"
      using True by (simp add: upt_conv_Cons)
    finally show ?thesis .
  qed
qed

lemma main_mapa_sementes:
  assumes "total_n \<le> TOTAL_TERRITORIOS"
  shows "main_mapa calloc_ok total_n =
     (if calloc_ok then MapaPronto (map semente [0..<total_n]) else FalhaAlocacao)"
  using assms
  by (simp add: main_mapa_def alocarMapa_def inicializarTerritorios_def
      inicializar_laco_sementes)

lemma sementes_referencia: "map semente [0..<TOTAL_TERRITORIOS] = mapa_referencia"
proof -
  have "[0..<TOTAL_TERRITORIOS] = [0, 1, 2, 3, 4]"
    unfolding TOTAL_TERRITORIOS_def by (simp add: upt_conv_Cons)
  then show ?thesis
    by (simp add: semente_def nomes_def cores_def tropas_iniciais_def mapa_referencia_def)
qed

lemma main_mapa_referencia: "main_mapa True TOTAL_TERRITORIOS = MapaPronto mapa_referencia"
  by (simp add: main_mapa_sementes sementes_referencia)

text \<open>
  With more territories asked for than the tables hold, the loop reaches an index outside
  the tables, or outside the map when that is shorter, before it reaches \<open>total\<close>:
  the source has no test that would stop it.
\<close>

lemma inicializar_laco_fora:
  assumes "TOTAL_TERRITORIOS < total_n" and "i \<le> TOTAL_TERRITORIOS"
  shows "inicializar_laco i total_n ts = Indefinido"
  using assms
proof (induction i total_n ts rule: inicializar_laco.induct)
  case (1 i total_n territorios)
  show ?case
  proof (cases "i < TOTAL_TERRITORIOS \<and> i < length territorios")
    case False
    with "1.prems" show ?thesis
      by (subst inicializar_laco.simps) auto
  next
    case True
    then have "inicializar_laco (i + 1) total_n
                 (territorios[i := (territorios ! i)
                    \<lparr>nome := strncpy_nul (nomes ! i) (TAM_NOME - 1),
                     corExercito := strncpy_nul (cores ! i) (TAM_COR - 1),
                     tropas := tropas_iniciais ! i\<rparr>]) = Indefinido"
      using "1.prems" by (intro "1.IH") simp_all
    with True "1.prems" show ?thesis
      by (subst inicializar_laco.simps) simp
  qed
qed

lemma main_mapa_fora:
  assumes "TOTAL_TERRITORIOS < total_n"
  shows "main_mapa calloc_ok total_n =
     (if calloc_ok then AcessoForaDaTabela else FalhaAlocacao)"
  using assms
  by (simp add: main_mapa_def alocarMapa_def inicializarTerritorios_def
      inicializar_laco_fora)

text \<open>
  C7. For every number of territories up to the size of the tables, 5, the setup gives
  a map of that many territories holding the first triples of the tables in their order
  when the allocation is granted, and ends in failure when, and only when, the allocation
  is refused. The source compares the number with nothing, so this says nothing of a
  number above 5.
\<close>

theorem main_mapa_dentro_da_tabela:
  assumes "total_n \<le> TOTAL_TERRITORIOS"
  shows "main_mapa True total_n = MapaPronto (map semente [0..<total_n])
       \<and> length (map semente [0..<total_n]) = total_n
       \<and> main_mapa False total_n = FalhaAlocacao"
  using assms by (simp add: main_mapa_sementes)

theorem main_mapa_dentro_da_tabela_witness:
  "main_mapa True 5 = MapaPronto mapa_referencia \<and> main_mapa False 5 = FalhaAlocacao"
  using main_mapa_dentro_da_tabela [of 5] sementes_referencia
  by (simp add: TOTAL_TERRITORIOS_def)

text \<open>
  Six territories asked for and the allocation granted: \<open>main\<close> is not left with
  \<open>EXIT_FAILURE\<close> and the map is not empty; the sixth round of the loop reads the
  tables of five entries at index 5.
\<close>

theorem main_mapa_seis_counterexample:
  "main_mapa True 6 = AcessoForaDaTabela
   \<and> main_mapa True 6 \<noteq> FalhaAlocacao
   \<and> main_mapa True 6 \<noteq> MapaPronto []"
  by (simp add: main_mapa_fora TOTAL_TERRITORIOS_def)

text \<open>
  C8. In the reference configuration the map right after the setup has exactly one
  territory of the player's colour, Azul: Cerrado, the second of the map, with its 4
  troops. The other four territories have other colours.
\<close>

theorem mapa_referencia_cor_do_jogador:
  "main_mapa True TOTAL_TERRITORIOS = MapaPronto mapa_referencia
   \<and> filter (\<lambda>t. corExercito t = corJogador_main) mapa_referencia
       = [\<lparr>nome = ''Cerrado'', corExercito = ''Azul'', tropas = 4\<rparr>]"
  by (simp add: main_mapa_referencia mapa_referencia_def corJogador_main_def)

text \<open>
  The second territory of the map right after the setup has the player's colour.
\<close>

theorem mapa_referencia_cerrado_counterexample:
  "main_mapa True TOTAL_TERRITORIOS = MapaPronto mapa_referencia
   \<and> corExercito (mapa_referencia ! 1) = corJogador_main"
  by (simp add: main_mapa_referencia mapa_referencia_def corJogador_main_def)

end
